theory Spec2Isabelle
  imports Complex_Main
begin

section \<open>Python values\<close>

text \<open>
  Python floats are idealised as reals; the special values that pandas produces
  (a division by zero, a rolling window that is not yet full) are kept apart in
  \<open>pyfloat\<close>.  Signed zeros are not distinguished.  Exceptions are values of
  \<open>py_error\<close>, carried on the left of a sum.
\<close>

datatype py_error =
  IndexError | TypeError | AttributeError | ValueError | OverflowError | ExchangeError

datatype pyfloat = Fin real | PosInf | NegInf | NaN

fun fl_less :: "pyfloat \<Rightarrow> pyfloat \<Rightarrow> bool" where
  "fl_less NaN _ = False"
| "fl_less _ NaN = False"
| "fl_less (Fin a) (Fin b) = (a < b)"
| "fl_less (Fin _) PosInf = True"
| "fl_less NegInf (Fin _) = True"
| "fl_less NegInf PosInf = True"
| "fl_less _ _ = False"

fun fl_le :: "pyfloat \<Rightarrow> pyfloat \<Rightarrow> bool" where
  "fl_le NaN _ = False"
| "fl_le _ NaN = False"
| "fl_le (Fin a) (Fin b) = (a \<le> b)"
| "fl_le NegInf _ = True"
| "fl_le _ PosInf = True"
| "fl_le _ _ = False"

definition fl_div :: "real \<Rightarrow> real \<Rightarrow> pyfloat" where
  "fl_div a b =
     (if b \<noteq> 0 then Fin (a / b)
      else if a = 0 then NaN
      else if 0 < a then PosInf else NegInf)"

definition truthy :: "string option \<Rightarrow> bool" where
  "truthy s = (case s of None \<Rightarrow> False | Some x \<Rightarrow> x \<noteq> [])"

definition iloc_last :: "'a list \<Rightarrow> py_error + 'a" where
  "iloc_last xs = (if xs = [] then Inl IndexError else Inr (last xs))"

section \<open>pandas series operations used by the signal generator\<close>

fun diff_series :: "real list \<Rightarrow> pyfloat list" where
  "diff_series [] = []"
| "diff_series (x # xs) = NaN # map2 (\<lambda>prev cur. Fin (cur - prev)) (x # xs) xs"

text \<open>\<open>delta.where(cond, 0)\<close>: keep the entry where the condition holds, else 0.\<close>

definition where_else_zero :: "(pyfloat \<Rightarrow> bool) \<Rightarrow> pyfloat \<Rightarrow> real" where
  "where_else_zero cond d = (case d of Fin v \<Rightarrow> if cond d then v else 0 | _ \<Rightarrow> 0)"

definition rolling_mean_at :: "nat \<Rightarrow> nat \<Rightarrow> real list \<Rightarrow> nat \<Rightarrow> pyfloat" where
  "rolling_mean_at window min_periods xs i =
     (let k = min window (Suc i)
      in if k < min_periods then NaN
         else Fin (sum_list (take k (drop (Suc i - k) xs)) / real k))"

definition rolling_mean :: "nat \<Rightarrow> nat \<Rightarrow> real list \<Rightarrow> pyfloat list" where
  "rolling_mean window min_periods xs =
     map (rolling_mean_at window min_periods xs) [0..<length xs]"

fun cumsum_from :: "real \<Rightarrow> real list \<Rightarrow> real list" where
  "cumsum_from acc [] = []"
| "cumsum_from acc (x # xs) = (acc + x) # cumsum_from (acc + x) xs"

definition cumsum :: "real list \<Rightarrow> real list" where
  "cumsum xs = cumsum_from 0 xs"

section \<open>SignalGenerator.py\<close>

record candle =
  Close :: real
  Volume :: real

record signal_generator =
  candles :: "candle list"
  order_queue :: "(string \<times> real) list"
  side :: "string option"
  quantity :: real

definition init_signal_generator :: "candle list \<Rightarrow> signal_generator" where
  "init_signal_generator cs =
     \<lparr>candles = cs, order_queue = [], side = None, quantity = 0\<rparr>"

fun rsi_of_rs :: "pyfloat \<Rightarrow> pyfloat" where
  "rsi_of_rs (Fin rs) =
     (case fl_div 100 (1 + rs) of
        Fin q \<Rightarrow> Fin (100 - q)
      | PosInf \<Rightarrow> NegInf
      | NegInf \<Rightarrow> PosInf
      | NaN \<Rightarrow> NaN)"
| "rsi_of_rs PosInf = Fin 100"
| "rsi_of_rs NegInf = Fin 100"
| "rsi_of_rs NaN = NaN"

definition calculate_rsi :: "candle list \<Rightarrow> nat \<Rightarrow> py_error + pyfloat" where
  "calculate_rsi cs period =
     (let delta = diff_series (map Close cs);
          gain = map (where_else_zero (\<lambda>d. fl_less (Fin 0) d)) delta;
          loss = map (\<lambda>d. - where_else_zero (\<lambda>d. fl_less d (Fin 0)) d) delta;
          avg_gain = rolling_mean period 1 gain;
          avg_loss = rolling_mean period 1 loss;
          rsi = map2 (\<lambda>g l. case (g, l) of
                         (Fin a, Fin b) \<Rightarrow> rsi_of_rs (fl_div a b)
                       | _ \<Rightarrow> NaN) avg_gain avg_loss
      in iloc_last rsi)"

definition signal_rsi :: "candle list \<Rightarrow> py_error + string option" where
  "signal_rsi cs =
     (case calculate_rsi cs 14 of
        Inl e \<Rightarrow> Inl e
      | Inr rsi \<Rightarrow>
          Inr (if fl_le (Fin 75) rsi then Some ''SELL''
               else if fl_le rsi (Fin 25) then Some ''BUY''
               else None))"

definition signal_simple_ma :: "candle list \<Rightarrow> py_error + string option" where
  "signal_simple_ma cs =
     (let sma20 = rolling_mean 20 20 (map Close cs)
      in case iloc_last (map Close cs) of
           Inl e \<Rightarrow> Inl e
         | Inr c \<Rightarrow>
             (case iloc_last sma20 of
                Inl e \<Rightarrow> Inl e
              | Inr m \<Rightarrow> Inr (if fl_less m (Fin c) then Some ''BUY'' else Some ''SELL'')))"

text \<open>
  The columns \<open>calculate_vwap\<close> adds to the frame.  \<open>VWAP_SMA5\<close> is the
  rolling mean of the \<open>Close\<close> column, as the source computes it.
\<close>

record vwap_columns =
  Cumulative_Volume :: "real list"
  Cumulative_Price_Volume :: "real list"
  VWAP :: "pyfloat list"
  VWAP_SMA5 :: "pyfloat list"

definition calculate_vwap :: "candle list \<Rightarrow> vwap_columns" where
  "calculate_vwap cs =
     (let cv = cumsum (map Volume cs);
          cpv = cumsum (map (\<lambda>c. Close c * Volume c) cs)
      in \<lparr>Cumulative_Volume = cv,
          Cumulative_Price_Volume = cpv,
          VWAP = map2 fl_div cpv cv,
          VWAP_SMA5 = rolling_mean 5 5 (map Close cs)\<rparr>)"

definition signal_vwap :: "candle list \<Rightarrow> py_error + string option" where
  "signal_vwap cs =
     (let cols = calculate_vwap cs
      in case iloc_last (map Close cs) of
           Inl e \<Rightarrow> Inl e
         | Inr current_price \<Rightarrow>
             (case iloc_last (VWAP_SMA5 cols) of
                Inl e \<Rightarrow> Inl e
              | Inr current_vwap \<Rightarrow>
                  Inr (if fl_less (Fin current_price) current_vwap then Some ''BUY''
                       else if fl_less current_vwap (Fin current_price) then Some ''SELL''
                       else None)))"

definition put :: "string \<times> real \<Rightarrow> signal_generator \<Rightarrow> signal_generator" where
  "put item sg = sg\<lparr>order_queue := order_queue sg @ [item]\<rparr>"

definition evaluate_signals :: "signal_generator \<Rightarrow> py_error + signal_generator" where
  "evaluate_signals sg =
     (if length (candles sg) < 60 then Inr sg
      else (case signal_rsi (candles sg) of
        Inl e \<Rightarrow> Inl e
      | Inr rsi_signal \<Rightarrow>
          (if truthy rsi_signal then Inr (put (the rsi_signal, 0.1) sg)
           else (case signal_simple_ma (candles sg) of
             Inl e \<Rightarrow> Inl e
           | Inr ma_signal \<Rightarrow>
               (case signal_vwap (candles sg) of
                  Inl e \<Rightarrow> Inl e
                | Inr vwap_signal \<Rightarrow>
                    (if truthy ma_signal \<and> truthy vwap_signal then
                       (if ma_signal \<noteq> vwap_signal
                        then Inr (put (the vwap_signal, 0.1) sg)
                        else Inr (put (the ma_signal, 0.2) sg))
                     else if truthy ma_signal then Inr (put (the ma_signal, 0.1) sg)
                     else if truthy vwap_signal then Inr (put (the vwap_signal, 0.1) sg)
                     else Inr sg))))))"

text \<open>
  \<open>Queue.get()\<close> blocks while the queue is empty; with no producer left the call
  never returns, which the model shows as \<open>None\<close>.
\<close>

definition generate_signal ::
  "signal_generator \<Rightarrow> ((string \<times> real) \<times> signal_generator) option" where
  "generate_signal sg =
     (case order_queue sg of
        [] \<Rightarrow> None
      | (s, q) # rest \<Rightarrow>
          Some ((s, q), sg\<lparr>order_queue := rest, side := Some s, quantity := q\<rparr>))"

section \<open>OrderManagementSystem.py\<close>

text \<open>
  The exchange client is a collaborator outside the repository.  It is modelled by
  what its calls answer: the orders that are open on the exchange, and for each
  request either a response or the exception the client raises.  Every request the
  order manager sends and every log line it writes is recorded, in order, in a
  trace.  The waits (\<open>asyncio.sleep\<close>) and the lines appended to
  \<open>TradesInfo.txt\<close> are left out of the trace.
\<close>

record order =
  orderId :: int
  status :: string

record order_params =
  p_symbol :: string
  p_side :: string
  p_type :: string
  p_timeInForce :: "string option"
  p_price :: "real option"
  p_quantity :: real

datatype exchange_filter = PRICE_FILTER real | LOT_SIZE real | OTHER_FILTER

record symbol_info =
  si_symbol :: string
  si_filters :: "exchange_filter list"

record exchange =
  open_orders :: "string \<Rightarrow> order list"
  get_open_orders_error :: "py_error option"
  futures_cancel_order :: "string \<Rightarrow> int \<Rightarrow> py_error + order"
  futures_create_order :: "order_params \<Rightarrow> py_error + order"
  futures_exchange_info :: "py_error + symbol_info list"


datatype request =
    GetOpenOrders string
  | CancelOrder string int
  | CreateOrder order_params

datatype log_line =
    Placed_limit_order order
  | Failed_to_place_limit_order py_error
  | Placed_market_order order
  | Failed_to_place_market_order py_error
  | No_open_orders_currently
  | Cancelled_order int order
  | Failed_to_cancel_order int py_error
  | Failed_to_fetch_or_cancel string py_error
  | All_open_orders_canceled string
  | Error_in_trading_logic py_error

datatype event = Request request | Log log_line

record oms =
  symbol :: string
  client :: exchange
  async_client :: "exchange option"
  tick_size :: real
  price_precision :: int
  quantity_precision :: int

text \<open>\<open>int(x)\<close> on a float truncates towards zero.\<close>

definition py_int :: "real \<Rightarrow> int" where
  "py_int x = (if 0 \<le> x then \<lfloor>x\<rfloor> else \<lceil>x\<rceil>)"

text \<open>
  \<open>int(-np.log10(t))\<close>: at \<open>t = 0\<close> the logarithm is infinite and for
  \<open>t < 0\<close> it is NaN; \<open>int\<close> raises on both.
\<close>

definition precision_of :: "real \<Rightarrow> py_error + int" where
  "precision_of t =
     (if t = 0 then Inl OverflowError
      else if t < 0 then Inl ValueError
      else Inr (py_int (- log 10 t)))"

definition load_filter :: "oms \<Rightarrow> exchange_filter \<Rightarrow> py_error + oms" where
  "load_filter om f =
     (case f of
        PRICE_FILTER tickSize \<Rightarrow>
          (case precision_of tickSize of
             Inl e \<Rightarrow> Inl e
           | Inr n \<Rightarrow> Inr (om\<lparr>tick_size := tickSize, price_precision := n\<rparr>))
      | LOT_SIZE stepSize \<Rightarrow>
          (case precision_of stepSize of
             Inl e \<Rightarrow> Inl e
           | Inr n \<Rightarrow> Inr (om\<lparr>quantity_precision := n\<rparr>))
      | OTHER_FILTER \<Rightarrow> Inr om)"

fun load_filters :: "oms \<Rightarrow> exchange_filter list \<Rightarrow> py_error + oms" where
  "load_filters om [] = Inr om"
| "load_filters om (f # fs) =
     (case load_filter om f of Inl e \<Rightarrow> Inl e | Inr om' \<Rightarrow> load_filters om' fs)"

fun load_symbols :: "oms \<Rightarrow> symbol_info list \<Rightarrow> py_error + oms" where
  "load_symbols om [] = Inr om"
| "load_symbols om (si # sis) =
     (if si_symbol si = symbol om
      then (case load_filters om (si_filters si) of
              Inl e \<Rightarrow> Inl e
            | Inr om' \<Rightarrow> load_symbols om' sis)
      else load_symbols om sis)"

definition load_exchange_info :: "oms \<Rightarrow> py_error + oms" where
  "load_exchange_info om =
     (case futures_exchange_info (client om) of
        Inl e \<Rightarrow> Inl e
      | Inr info \<Rightarrow> load_symbols om info)"

definition init_oms :: "string \<Rightarrow> exchange \<Rightarrow> py_error + oms" where
  "init_oms smb ex =
     load_exchange_info
       \<lparr>symbol = smb, client = ex, async_client = None,
        tick_size = 0.01, price_precision = 8, quantity_precision = 8\<rparr>"

text \<open>
  \<open>round(x, n)\<close>: to the nearest multiple of \<open>10\<^sup>-\<^sup>n\<close>, a tie going to the even
  one.
\<close>

definition round_half_even :: "real \<Rightarrow> int" where
  "round_half_even y =
     (let f = \<lfloor>y\<rfloor>; d = y - of_int f
      in if d < 1 / 2 then f
         else if 1 / 2 < d then f + 1
         else if even f then f else f + 1)"

definition py_round :: "real \<Rightarrow> nat \<Rightarrow> real" where
  "py_round x n = of_int (round_half_even (x * 10 ^ n)) / 10 ^ n"

definition upper_char :: "char \<Rightarrow> char" where
  "upper_char c =
     (let n = (of_char c :: nat)
      in if 97 \<le> n \<and> n \<le> 122 then char_of (n - 32) else c)"

definition upper :: "string \<Rightarrow> string" where
  "upper s = map upper_char s"

definition limit_order_params :: "string \<Rightarrow> real \<Rightarrow> real \<Rightarrow> string \<Rightarrow> order_params" where
  "limit_order_params smb price qty sd =
     \<lparr>p_symbol = smb, p_side = upper sd, p_type = ''LIMIT'',
      p_timeInForce = Some ''GTC'',
      p_price = Some (py_round price 2),
      p_quantity = py_round qty 1\<rparr>"

definition place_limit_order ::
  "oms \<Rightarrow> string \<Rightarrow> real \<Rightarrow> real \<Rightarrow> string \<Rightarrow> order option \<times> event list" where
  "place_limit_order om smb price qty sd =
     (let params = limit_order_params smb price qty sd
      in case futures_create_order (client om) params of
           Inr ord \<Rightarrow> (Some ord, [Request (CreateOrder params), Log (Placed_limit_order ord)])
         | Inl e \<Rightarrow> (None, [Request (CreateOrder params), Log (Failed_to_place_limit_order e)]))"



definition cancel_order :: "oms \<Rightarrow> string \<Rightarrow> int \<Rightarrow> order option \<times> event list" where
  "cancel_order om smb oid =
     (case futures_cancel_order (client om) smb oid of
        Inr response \<Rightarrow>
          (Some response, [Request (CancelOrder smb oid), Log (Cancelled_order oid response)])
      | Inl e \<Rightarrow> (None, [Request (CancelOrder smb oid), Log (Failed_to_cancel_order oid e)]))"

fun cancel_each :: "oms \<Rightarrow> string \<Rightarrow> order list \<Rightarrow> event list" where
  "cancel_each om smb [] = []"
| "cancel_each om smb (ord # rest) =
     snd (cancel_order om smb (orderId ord)) @ cancel_each om smb rest"




text \<open>
  A monitor for a trace of one managed placement: \<open>pending\<close> holds the ids of the
  orders that were open before the call and have had no cancel request yet.  The
  trace passes when no order is created while an id is still pending.
\<close>

fun no_create_while_pending :: "int list \<Rightarrow> string \<Rightarrow> event list \<Rightarrow> bool" where
  "no_create_while_pending pending smb [] = True"
| "no_create_while_pending pending smb (Request (CancelOrder s oid) # tr) =
     no_create_while_pending (if s = smb then removeAll oid pending else pending) smb tr"
| "no_create_while_pending pending smb (Request (CreateOrder ps) # tr) =
     (pending = [] \<and> no_create_while_pending pending smb tr)"
| "no_create_while_pending pending smb (Request (GetOpenOrders s) # tr) =
     no_create_while_pending pending smb tr"
| "no_create_while_pending pending smb (Log l # tr) =
     no_create_while_pending pending smb tr"


section \<open>Main.py: the trading loop's use of the order manager\<close>




section \<open>Main.py: RiskManagement\<close>

text \<open>
  One evaluation cycle.  What the cycle reads from the other threads is its input:
  the global position, the entry price of the symbol's row (absent when there is no
  row, where \<open>iloc[0]\<close> raises), the three reads of the order book (the first
  one with the best bid and ask) and the realized PnL.  A call of
  \<open>liquidate_position\<close> is recorded with its arguments \<open>liquid_ratio\<close>,
  \<open>type\<close> and \<open>aggressive_level\<close>; the cycle is followed on the assumption
  that each such call returns.
\<close>

datatype warning = Limit_exceed | Open_loss | Take_profit | Max_drawdown | Wide_loss

datatype risk_event =
    Write_row real real real real
  | Warn warning
  | Liquidate_position real bool real
  | Risk_error py_error

record risk_management =
  take_profit_pnl :: real
  max_pnl :: real
  max_notional_portfolio :: real
  max_direct_loss :: real
  max_draw_down :: real

definition init_risk_management :: "real \<Rightarrow> real \<Rightarrow> real \<Rightarrow> risk_management" where
  "init_risk_management mdl mnp mdd =
     \<lparr>take_profit_pnl = 50, max_pnl = 0, max_notional_portfolio = mnp,
      max_direct_loss = mdl, max_draw_down = mdd\<rparr>"

record risk_inputs =
  global_position :: real
  entryPrice :: "real option"
  order_book_first :: "(real \<times> real) option"
  order_book_second :: bool
  order_book_third :: bool
  realized_pnl :: real

definition apply_risk_management_open_position_and_portfolio ::
  "risk_management \<Rightarrow> risk_inputs \<Rightarrow> risk_management \<times> risk_event list" where
  "apply_risk_management_open_position_and_portfolio rm inp =
     (let current_position = global_position inp
      in case entryPrice inp of
           None \<Rightarrow> (rm, [Risk_error IndexError])
         | Some E \<Rightarrow>
             (case order_book_first inp of
                None \<Rightarrow> (rm, [])
              | Some (bid_price, ask_price) \<Rightarrow>
                  (let P = current_position;
                       currentProfit =
                         (if 0 < current_position
                          then current_position * (- E + bid_price)
                          else current_position * (E - ask_price));
                       r = realized_pnl inp;
                       ev0 = [Write_row P currentProfit E r];
                       ev1 = (if max_notional_portfolio rm < \<bar>P * E\<bar>
                              then [Warn Limit_exceed, Liquidate_position 0.5 False 0.25]
                              else [])
                   in if \<not> order_book_second inp then (rm, ev0 @ ev1)
                      else
                        (let ev2 =
                               (if currentProfit < - max_direct_loss rm * E * \<bar>P\<bar> \<and> 0.5 < \<bar>P\<bar>
                                then [Warn Open_loss, Liquidate_position 1.0 False 0.25]
                                else if take_profit_pnl rm < currentProfit
                                then [Warn Take_profit, Liquidate_position 0.5 False 0.25]
                                else []);
                             rm' = (if max_pnl rm \<le> r then rm\<lparr>max_pnl := r\<rparr> else rm);
                             ev3 =
                               (if 100 < r
                                then (if fl_le (fl_div r (max_pnl rm')) (Fin (1 - max_draw_down rm'))
                                      then [Warn Max_drawdown, Liquidate_position 0.5 False 0.25]
                                      else [])
                                else []);
                             ev4 =
                               (if order_book_third inp
                                then (if currentProfit < - max_direct_loss rm' * 3 * E * \<bar>P\<bar>
                                      then [Warn Wide_loss, Liquidate_position 1.0 False 0.5]
                                      else [])
                                else [])
                         in (rm', ev0 @ ev1 @ ev2 @ ev3 @ ev4)))))"

text \<open>
  The unrealized PnL as the specification words it, for comparison with
  \<open>currentProfit\<close> above.
\<close>

definition spec_unrealized_pnl :: "real \<Rightarrow> real \<Rightarrow> real \<Rightarrow> real \<Rightarrow> real" where
  "spec_unrealized_pnl P E bid ask = (if 0 < P then P * (bid - E) else P * (E - ask))"

section \<open>AccountGateWay.py: the listen-key job\<close>

text \<open>
  \<open>connect\<close> hands \<open>_extend_listen_key\<close> to the scheduler with a period of 15
  minutes.  The method's body is \<open>pass\<close>: run on an account, it sends nothing
  and changes nothing.
\<close>

datatype account_request = Keepalive_listen_key

datatype job_func = Extend_listen_key

record scheduled_job =
  every_minutes :: nat
  job_func :: job_func

record binance_account =
  sync_client_ready :: bool
  loop_thread_started :: bool
  scheduled_jobs :: "scheduled_job list"

definition extend_listen_key :: "binance_account \<Rightarrow> binance_account \<times> account_request list" where
  "extend_listen_key acct = (acct, [])"

definition run_job :: "job_func \<Rightarrow> binance_account \<Rightarrow> binance_account \<times> account_request list" where
  "run_job f acct = (case f of Extend_listen_key \<Rightarrow> extend_listen_key acct)"

definition connect :: "binance_account \<Rightarrow> binance_account" where
  "connect acct =
     acct\<lparr>loop_thread_started := True, sync_client_ready := True,
          scheduled_jobs :=
            scheduled_jobs acct @ [\<lparr>every_minutes = 15, job_func = Extend_listen_key\<rparr>]\<rparr>"

section \<open>The mean-reversion signal as the specification words it\<close>

text \<open>
  The specification compares the last close with the 5-period smoothing of the
  cumulative VWAP series.  This is that reading, for comparison with
  \<open>signal_vwap\<close> above; a window holding a value that is not finite has no mean.
\<close>

fun finite_values :: "pyfloat list \<Rightarrow> real list option" where
  "finite_values [] = Some []"
| "finite_values (Fin v # xs) = map_option ((#) v) (finite_values xs)"
| "finite_values (_ # xs) = None"

definition spec_vwap_smoothing_at :: "pyfloat list \<Rightarrow> nat \<Rightarrow> pyfloat" where
  "spec_vwap_smoothing_at xs i =
     (if Suc i < 5 then NaN
      else case finite_values (take 5 (drop (Suc i - 5) xs)) of
             None \<Rightarrow> NaN
           | Some vs \<Rightarrow> Fin (sum_list vs / 5))"

definition spec_vwap_smoothing :: "candle list \<Rightarrow> pyfloat list" where
  "spec_vwap_smoothing cs =
     (let vwap = VWAP (calculate_vwap cs)
      in map (spec_vwap_smoothing_at vwap) [0..<length vwap])"

definition spec_signal_vwap :: "candle list \<Rightarrow> py_error + string option" where
  "spec_signal_vwap cs =
     (case iloc_last (map Close cs) of
        Inl e \<Rightarrow> Inl e
      | Inr current_price \<Rightarrow>
          (case iloc_last (spec_vwap_smoothing cs) of
             Inl e \<Rightarrow> Inl e
           | Inr smoothed \<Rightarrow>
               Inr (if fl_less (Fin current_price) smoothed then Some ''BUY''
                    else if fl_less smoothed (Fin current_price) then Some ''SELL''
                    else None)))"

section \<open>Concrete inputs\<close>

definition closes_window :: "nat \<Rightarrow> real \<Rightarrow> real list \<Rightarrow> candle list" where
  "closes_window n c xs =
     replicate n \<lparr>Close = c, Volume = 1\<rparr> @ map (\<lambda>x. \<lparr>Close = x, Volume = 1\<rparr>) xs"

definition window_rising :: "candle list" where
  "window_rising = closes_window 50 100 [101, 102, 103, 104, 105, 106, 107, 108, 109, 110]"

definition window_fallen :: "candle list" where
  "window_fallen = closes_window 55 200 [100, 100, 100, 100, 101]"

definition window_disagree :: "candle list" where
  "window_disagree = closes_window 50 100 [100, 102, 100, 102, 100, 102, 100, 102, 100, 103]"

definition window_agree :: "candle list" where
  "window_agree = closes_window 50 100 [100, 104, 100, 104, 100, 110, 108, 110, 108, 107]"

definition window_level :: "candle list" where
  "window_level = closes_window 50 100 [100, 102, 100, 102, 101, 101, 101, 101, 101, 101]"

definition test_exchange ::
  "order list \<Rightarrow> py_error option \<Rightarrow> int list \<Rightarrow> py_error + order \<Rightarrow> real \<Rightarrow> real \<Rightarrow> exchange" where
  "test_exchange ords fetch_error uncancellable created tick step =
     \<lparr>open_orders = (\<lambda>s. if s = ''ETHUSDT'' then ords else []),
      get_open_orders_error = fetch_error,
      futures_cancel_order =
        (\<lambda>s oid. if oid \<in> set uncancellable then Inl ExchangeError
                 else Inr \<lparr>orderId = oid, status = ''CANCELED''\<rparr>),
      futures_create_order = (\<lambda>ps. created),
      futures_exchange_info =
        Inr [\<lparr>si_symbol = ''BTCUSDT'', si_filters = [PRICE_FILTER 100, LOT_SIZE 100]\<rparr>,
             \<lparr>si_symbol = ''ETHUSDT'',
              si_filters = [PRICE_FILTER tick, OTHER_FILTER, LOT_SIZE step]\<rparr>]\<rparr>"

definition test_oms :: "exchange \<Rightarrow> oms" where
  "test_oms ex =
     \<lparr>symbol = ''ETHUSDT'', client = ex, async_client = Some ex,
      tick_size = 0.01, price_precision = 2, quantity_precision = 3\<rparr>"

definition coarse_exchange :: exchange where
  "coarse_exchange =
     test_exchange [] None [] (Inr \<lparr>orderId = 8, status = ''NEW''\<rparr>) 0.1 1"





definition risk_inputs_example :: "real \<Rightarrow> real \<Rightarrow> risk_inputs" where
  "risk_inputs_example position r =
     \<lparr>global_position = position, entryPrice = Some 100,
      order_book_first = Some (110, 111), order_book_second = True,
      order_book_third = True, realized_pnl = r\<rparr>"


section \<open>Properties of the signal generator\<close>

lemma iloc_last_nonempty: "xs \<noteq> [] \<Longrightarrow> iloc_last xs = Inr (last xs)"
  by (simp add: iloc_last_def)

lemma length_rolling_mean [simp]: "length (rolling_mean w m xs) = length xs"
  by (simp add: rolling_mean_def)

lemma length_diff_series [simp]: "length (diff_series xs) = length xs"
  by (cases xs) simp_all

lemma calculate_rsi_returns:
  assumes "cs \<noteq> []"
  shows "\<exists>rsi. calculate_rsi cs p = Inr rsi"
proof -
  have "length (map2 (\<lambda>g l. case (g, l) of (Fin a, Fin b) \<Rightarrow> rsi_of_rs (fl_div a b) | _ \<Rightarrow> NaN)
          (rolling_mean p 1 (map (where_else_zero (\<lambda>d. fl_less (Fin 0) d)) (diff_series (map Close cs))))
          (rolling_mean p 1 (map (\<lambda>d. - where_else_zero (\<lambda>d. fl_less d (Fin 0)) d) (diff_series (map Close cs))))) = length cs"
    by simp
  with assms have "map2 (\<lambda>g l. case (g, l) of (Fin a, Fin b) \<Rightarrow> rsi_of_rs (fl_div a b) | _ \<Rightarrow> NaN)
          (rolling_mean p 1 (map (where_else_zero (\<lambda>d. fl_less (Fin 0) d)) (diff_series (map Close cs))))
          (rolling_mean p 1 (map (\<lambda>d. - where_else_zero (\<lambda>d. fl_less d (Fin 0)) d) (diff_series (map Close cs)))) \<noteq> []"
    by (metis length_0_conv)
  then show ?thesis
    by (simp add: calculate_rsi_def Let_def iloc_last_def)
qed

lemma signal_rsi_cases:
  assumes "cs \<noteq> []"
  shows "signal_rsi cs = Inr (Some ''SELL'') \<or> signal_rsi cs = Inr (Some ''BUY'') \<or> signal_rsi cs = Inr None"
proof -
  from calculate_rsi_returns [OF assms] obtain rsi where "calculate_rsi cs 14 = Inr rsi" by blast
  then show ?thesis by (simp add: signal_rsi_def)
qed

lemma signal_simple_ma_cases:
  assumes "cs \<noteq> []"
  shows "signal_simple_ma cs = Inr (Some ''BUY'') \<or> signal_simple_ma cs = Inr (Some ''SELL'')"
proof -
  have "rolling_mean 20 20 (map Close cs) \<noteq> []" using assms
    by (simp add: rolling_mean_def)
  with assms show ?thesis
    by (simp add: signal_simple_ma_def Let_def iloc_last_def)
qed

lemma signal_vwap_cases:
  assumes "cs \<noteq> []"
  shows "signal_vwap cs = Inr (Some ''BUY'') \<or> signal_vwap cs = Inr (Some ''SELL'') \<or> signal_vwap cs = Inr None"
proof -
  have "rolling_mean 5 5 (map Close cs) \<noteq> []" using assms
    by (simp add: rolling_mean_def)
  with assms show ?thesis
    by (simp add: signal_vwap_def calculate_vwap_def Let_def iloc_last_def)
qed

lemma truthy_simps [simp]:
  "truthy None = False" "truthy (Some ''BUY'') = True" "truthy (Some ''SELL'') = True"
  by (simp_all add: truthy_def)

lemma candles_init [simp]: "candles (init_signal_generator cs) = cs"
  by (simp add: init_signal_generator_def)

subsection \<open>The last entry of each series\<close>

lemma iloc_last_map_upt:
  "0 < n \<Longrightarrow> iloc_last (map f [0..<n]) = Inr (f (n - 1))"
  by (cases n) (simp_all add: iloc_last_def)

lemma iloc_last_rolling_mean:
  "xs \<noteq> [] \<Longrightarrow>
   iloc_last (rolling_mean w m xs) = Inr (rolling_mean_at w m xs (length xs - 1))"
  by (simp add: rolling_mean_def iloc_last_map_upt)

lemma map2_map_upt:
  "map2 f (map g [0..<n]) (map h [0..<n]) = map (\<lambda>i. f (g i) (h i)) [0..<n]"
  by (simp add: zip_map_map zip_same_conv_map)

lemma calculate_rsi_last:
  assumes "cs \<noteq> []"
  shows "calculate_rsi cs p =
     Inr (case (rolling_mean_at p 1
                  (map (where_else_zero (\<lambda>d. fl_less (Fin 0) d)) (diff_series (map Close cs)))
                  (length cs - 1),
                rolling_mean_at p 1
                  (map (\<lambda>d. - where_else_zero (\<lambda>d. fl_less d (Fin 0)) d) (diff_series (map Close cs)))
                  (length cs - 1)) of
            (Fin a, Fin b) \<Rightarrow> rsi_of_rs (fl_div a b)
          | _ \<Rightarrow> NaN)"
  using assms
  by (simp add: calculate_rsi_def Let_def rolling_mean_def map2_map_upt iloc_last_map_upt
      cong: pyfloat.case_cong)

lemma signal_simple_ma_last:
  assumes "cs \<noteq> []"
  shows "signal_simple_ma cs =
     Inr (if fl_less (rolling_mean_at 20 20 (map Close cs) (length cs - 1)) (Fin (Close (last cs)))
          then Some ''BUY'' else Some ''SELL'')"
  using assms
  by (simp add: signal_simple_ma_def Let_def iloc_last_rolling_mean iloc_last_nonempty last_map)

lemma signal_vwap_last:
  assumes "cs \<noteq> []"
  shows "signal_vwap cs =
     Inr (let current_price = Close (last cs);
              current_vwap = rolling_mean_at 5 5 (map Close cs) (length cs - 1)
          in if fl_less (Fin current_price) current_vwap then Some ''BUY''
             else if fl_less current_vwap (Fin current_price) then Some ''SELL''
             else None)"
  using assms
  by (simp add: signal_vwap_def calculate_vwap_def Let_def iloc_last_rolling_mean iloc_last_nonempty last_map)

lemma length_cumsum_from [simp]: "length (cumsum_from a xs) = length xs"
  by (induction xs arbitrary: a) simp_all

lemma spec_signal_vwap_last:
  assumes "cs \<noteq> []"
  shows "spec_signal_vwap cs =
     Inr (let current_price = Close (last cs);
              smoothed = spec_vwap_smoothing_at (VWAP (calculate_vwap cs)) (length cs - 1)
          in if fl_less (Fin current_price) smoothed then Some ''BUY''
             else if fl_less smoothed (Fin current_price) then Some ''SELL''
             else None)"
proof -
  have "length (VWAP (calculate_vwap cs)) = length cs"
    by (simp add: calculate_vwap_def Let_def cumsum_def)
  with assms show ?thesis
    by (simp add: spec_signal_vwap_def spec_vwap_smoothing_def Let_def iloc_last_map_upt
        iloc_last_nonempty last_map)
qed

subsection \<open>The concrete windows\<close>

lemma window_lengths:
  "length window_rising = 60" "length window_fallen = 60" "length window_disagree = 60"
  "length window_agree = 60" "length window_level = 60"
  by (simp_all add: window_rising_def window_fallen_def window_disagree_def window_agree_def
      window_level_def closes_window_def)

lemma window_nonempty:
  "window_rising \<noteq> []" "window_fallen \<noteq> []" "window_disagree \<noteq> []"
  "window_agree \<noteq> []" "window_level \<noteq> []"
  using window_lengths by auto

lemma window_rising_rsi: "calculate_rsi window_rising 14 = Inr (Fin 100)"
  unfolding calculate_rsi_last [OF window_nonempty(1)] by code_simp

lemma window_fallen_rsi: "calculate_rsi window_fallen 14 = Inr (Fin (100 / 101))"
  unfolding calculate_rsi_last [OF window_nonempty(2)] by code_simp

lemma window_disagree_rsi: "calculate_rsi window_disagree 14 = Inr (Fin (1100 / 19))"
  unfolding calculate_rsi_last [OF window_nonempty(3)] by code_simp

lemma window_agree_rsi: "calculate_rsi window_agree 14 = Inr (Fin (2000 / 33))"
  unfolding calculate_rsi_last [OF window_nonempty(4)] by code_simp

lemma window_level_rsi: "calculate_rsi window_level 14 = Inr (Fin (400 / 7))"
  unfolding calculate_rsi_last [OF window_nonempty(5)] by code_simp

lemma window_disagree_signals:
  "signal_rsi window_disagree = Inr None"
  "signal_simple_ma window_disagree = Inr (Some ''BUY'')"
  "signal_vwap window_disagree = Inr (Some ''SELL'')"
  unfolding signal_rsi_def window_disagree_rsi
    signal_simple_ma_last [OF window_nonempty(3)] signal_vwap_last [OF window_nonempty(3)]
  by code_simp+

lemma window_agree_signals:
  "signal_rsi window_agree = Inr None"
  "signal_simple_ma window_agree = Inr (Some ''BUY'')"
  "signal_vwap window_agree = Inr (Some ''BUY'')"
  unfolding signal_rsi_def window_agree_rsi
    signal_simple_ma_last [OF window_nonempty(4)] signal_vwap_last [OF window_nonempty(4)]
  by code_simp+

lemma window_level_signals:
  "signal_rsi window_level = Inr None"
  "signal_simple_ma window_level = Inr (Some ''BUY'')"
  "signal_vwap window_level = Inr None"
  unfolding signal_rsi_def window_level_rsi
    signal_simple_ma_last [OF window_nonempty(5)] signal_vwap_last [OF window_nonempty(5)]
  by code_simp+

subsection \<open>The claims\<close>

text \<open>
  Claim C7.  On a window of at least 60 candles the RSI is computed without an
  exception.  When it is at least 75 the RSI signal is SELL, \<open>evaluate_signals\<close>
  returns the generator with the one item \<open>(SELL, 0.1)\<close> appended to its queue
  and nothing else changed, and on a queue that was empty \<open>generate_signal\<close> then
  returns \<open>(SELL, 0.1)\<close>.  When it is at most 25 the same holds with BUY.  The
  moving-average and VWAP signals play no part in either case.  Strictly between 25
  and 75 there is no RSI signal.
\<close>

theorem rsi_priority:
  assumes "60 \<le> length (candles sg)"
  shows "\<exists>rsi. calculate_rsi (candles sg) 14 = Inr rsi \<and>
           (fl_le (Fin 75) rsi \<longrightarrow>
              signal_rsi (candles sg) = Inr (Some ''SELL'') \<and>
              (\<exists>sg'. evaluate_signals sg = Inr sg' \<and>
                 sg' = sg\<lparr>order_queue := order_queue sg @ [(''SELL'', 0.1)]\<rparr> \<and>
                 (order_queue sg = [] \<longrightarrow>
                    generate_signal sg' =
                      Some ((''SELL'', 0.1),
                            sg\<lparr>order_queue := [], side := Some ''SELL'', quantity := 0.1\<rparr>)))) \<and>
           (fl_le rsi (Fin 25) \<longrightarrow>
              signal_rsi (candles sg) = Inr (Some ''BUY'') \<and>
              (\<exists>sg'. evaluate_signals sg = Inr sg' \<and>
                 sg' = sg\<lparr>order_queue := order_queue sg @ [(''BUY'', 0.1)]\<rparr> \<and>
                 (order_queue sg = [] \<longrightarrow>
                    generate_signal sg' =
                      Some ((''BUY'', 0.1),
                            sg\<lparr>order_queue := [], side := Some ''BUY'', quantity := 0.1\<rparr>)))) \<and>
           (fl_less (Fin 25) rsi \<and> fl_less rsi (Fin 75) \<longrightarrow>
              signal_rsi (candles sg) = Inr None)"
proof -
  from assms have ne: "candles sg \<noteq> []" by auto
  from calculate_rsi_returns [OF ne] obtain rsi where r: "calculate_rsi (candles sg) 14 = Inr rsi"
    by blast
  have len: "\<not> length (candles sg) < 60" using assms by simp
  have a: "fl_le (Fin 75) rsi \<Longrightarrow> signal_rsi (candles sg) = Inr (Some ''SELL'')"
    by (simp add: signal_rsi_def r)
  have b: "fl_le rsi (Fin 25) \<Longrightarrow> signal_rsi (candles sg) = Inr (Some ''BUY'')"
    by (cases rsi) (simp_all add: signal_rsi_def r)
  have c: "fl_less (Fin 25) rsi \<and> fl_less rsi (Fin 75) \<Longrightarrow> signal_rsi (candles sg) = Inr None"
    by (cases rsi) (simp_all add: signal_rsi_def r)
  have ev: "evaluate_signals sg = Inr (sg\<lparr>order_queue := order_queue sg @ [(x, 0.1)]\<rparr>)"
    if "signal_rsi (candles sg) = Inr (Some x)" and "x = ''SELL'' \<or> x = ''BUY''" for x
    using len that by (auto simp: evaluate_signals_def put_def)
  have gen: "order_queue sg = [] \<longrightarrow>
      generate_signal (sg\<lparr>order_queue := order_queue sg @ [(x, 0.1)]\<rparr>) =
        Some ((x, 0.1), sg\<lparr>order_queue := [], side := Some x, quantity := 0.1\<rparr>)" for x
    by (simp add: generate_signal_def)
  from r a b c ev [of "''SELL''"] ev [of "''BUY''"] gen [of "''SELL''"] gen [of "''BUY''"]
  show ?thesis by blast
qed

theorem rsi_priority_witness:
  "60 \<le> length (candles (init_signal_generator window_rising)) \<and>
   calculate_rsi window_rising 14 = Inr (Fin 100) \<and>
   evaluate_signals (init_signal_generator window_rising) =
     Inr \<lparr>candles = window_rising, order_queue = [(''SELL'', 0.1)],
          side = None, quantity = 0\<rparr> \<and>
   generate_signal \<lparr>candles = window_rising, order_queue = [(''SELL'', 0.1)],
                    side = None, quantity = 0\<rparr> =
     Some ((''SELL'', 0.1),
           \<lparr>candles = window_rising, order_queue = [], side = Some ''SELL'', quantity = 0.1\<rparr>) \<and>
   calculate_rsi window_fallen 14 = Inr (Fin (100 / 101)) \<and>
   evaluate_signals (init_signal_generator window_fallen) =
     Inr \<lparr>candles = window_fallen, order_queue = [(''BUY'', 0.1)],
          side = None, quantity = 0\<rparr> \<and>
   generate_signal \<lparr>candles = window_fallen, order_queue = [(''BUY'', 0.1)],
                    side = None, quantity = 0\<rparr> =
     Some ((''BUY'', 0.1),
           \<lparr>candles = window_fallen, order_queue = [], side = Some ''BUY'', quantity = 0.1\<rparr>) \<and>
   calculate_rsi window_disagree 14 = Inr (Fin (1100 / 19)) \<and>
   signal_rsi window_disagree = Inr None"
proof -
  have c1: "candles (init_signal_generator window_rising) = window_rising"
    and c2: "candles (init_signal_generator window_fallen) = window_fallen"
    and c3: "candles (init_signal_generator window_disagree) = window_disagree"
    by (simp_all add: init_signal_generator_def)
  have h1: "60 \<le> length (candles (init_signal_generator window_rising))"
    and h2: "60 \<le> length (candles (init_signal_generator window_fallen))"
    and h3: "60 \<le> length (candles (init_signal_generator window_disagree))"
    by (simp_all add: c1 c2 c3 window_lengths)
  from rsi_priority [OF h1]
  have p1: "evaluate_signals (init_signal_generator window_rising) =
       Inr \<lparr>candles = window_rising, order_queue = [(''SELL'', 0.1)],
            side = None, quantity = 0\<rparr> \<and>
     generate_signal \<lparr>candles = window_rising, order_queue = [(''SELL'', 0.1)],
                      side = None, quantity = 0\<rparr> =
       Some ((''SELL'', 0.1),
             \<lparr>candles = window_rising, order_queue = [], side = Some ''SELL'',
              quantity = 0.1\<rparr>)"
    by (auto simp: c1 window_rising_rsi init_signal_generator_def)
  from rsi_priority [OF h2]
  have p2: "evaluate_signals (init_signal_generator window_fallen) =
       Inr \<lparr>candles = window_fallen, order_queue = [(''BUY'', 0.1)],
            side = None, quantity = 0\<rparr> \<and>
     generate_signal \<lparr>candles = window_fallen, order_queue = [(''BUY'', 0.1)],
                      side = None, quantity = 0\<rparr> =
       Some ((''BUY'', 0.1),
             \<lparr>candles = window_fallen, order_queue = [], side = Some ''BUY'',
              quantity = 0.1\<rparr>)"
    by (auto simp: c2 window_fallen_rsi init_signal_generator_def)
  from rsi_priority [OF h3] have p3: "signal_rsi window_disagree = Inr None"
    by (auto simp: c3 window_disagree_rsi)
  from h1 p1 p2 p3 window_rising_rsi window_fallen_rsi window_disagree_rsi show ?thesis by simp
qed

text \<open>
  Claim C8.  On a window of at least 60 candles on which the RSI signal is silent,
  the moving-average signal is always defined.  When the VWAP signal is defined and
  differs from it, \<open>evaluate_signals\<close> returns the generator with one item
  appended to its queue, the VWAP signal's side at the base quantity 0.1; when the
  two agree, the item is their common side at twice the base quantity; when the VWAP
  signal is undefined, it is the moving-average side at the base quantity.  Nothing
  else of the generator changes, and on a queue that was empty
  \<open>generate_signal\<close> then returns that item.  (The moving-average signal
  being always defined, the case in which only the VWAP signal is defined does not
  arise.)
\<close>

theorem signal_combination:
  assumes "60 \<le> length (candles sg)"
    and "signal_rsi (candles sg) = Inr r"
    and "\<not> truthy r"
  shows "\<exists>m. signal_simple_ma (candles sg) = Inr (Some m) \<and>
           (\<forall>s. signal_vwap (candles sg) = Inr (Some s) \<and> s \<noteq> m \<longrightarrow>
              (\<exists>sg'. evaluate_signals sg = Inr sg' \<and>
                 sg' = sg\<lparr>order_queue := order_queue sg @ [(s, 0.1)]\<rparr> \<and>
                 (order_queue sg = [] \<longrightarrow>
                    generate_signal sg' =
                      Some ((s, 0.1),
                            sg\<lparr>order_queue := [], side := Some s, quantity := 0.1\<rparr>)))) \<and>
           (signal_vwap (candles sg) = Inr (Some m) \<longrightarrow>
              (\<exists>sg'. evaluate_signals sg = Inr sg' \<and>
                 sg' = sg\<lparr>order_queue := order_queue sg @ [(m, 2 * 0.1)]\<rparr> \<and>
                 (order_queue sg = [] \<longrightarrow>
                    generate_signal sg' =
                      Some ((m, 2 * 0.1),
                            sg\<lparr>order_queue := [], side := Some m, quantity := 2 * 0.1\<rparr>)))) \<and>
           (signal_vwap (candles sg) = Inr None \<longrightarrow>
              (\<exists>sg'. evaluate_signals sg = Inr sg' \<and>
                 sg' = sg\<lparr>order_queue := order_queue sg @ [(m, 0.1)]\<rparr> \<and>
                 (order_queue sg = [] \<longrightarrow>
                    generate_signal sg' =
                      Some ((m, 0.1),
                            sg\<lparr>order_queue := [], side := Some m, quantity := 0.1\<rparr>))))"
proof -
  from assms(1) have ne: "candles sg \<noteq> []" by auto
  have len: "\<not> length (candles sg) < 60" using assms(1) by simp
  from signal_simple_ma_cases [OF ne] obtain m
    where m: "signal_simple_ma (candles sg) = Inr (Some m)" and tm: "truthy (Some m)"
    by auto
  have gen: "order_queue sg = [] \<longrightarrow>
      generate_signal (sg\<lparr>order_queue := order_queue sg @ [(x, q)]\<rparr>) =
        Some ((x, q), sg\<lparr>order_queue := [], side := Some x, quantity := q\<rparr>)" for x q
    by (simp add: generate_signal_def)
  have a: "evaluate_signals sg = Inr (sg\<lparr>order_queue := order_queue sg @ [(s, 0.1)]\<rparr>)"
    if "signal_vwap (candles sg) = Inr (Some s)" "s \<noteq> m" for s
  proof -
    from signal_vwap_cases [OF ne] that(1) have "truthy (Some s)" by auto
    with that tm show ?thesis
      using len assms(2,3) m by (simp add: evaluate_signals_def put_def)
  qed
  have b: "evaluate_signals sg = Inr (sg\<lparr>order_queue := order_queue sg @ [(m, 2 * 0.1)]\<rparr>)"
    if "signal_vwap (candles sg) = Inr (Some m)"
    using that tm len assms(2,3) m by (simp add: evaluate_signals_def put_def)
  have c: "evaluate_signals sg = Inr (sg\<lparr>order_queue := order_queue sg @ [(m, 0.1)]\<rparr>)"
    if "signal_vwap (candles sg) = Inr None"
    using that tm len assms(2,3) m by (simp add: evaluate_signals_def put_def)
  have a': "\<exists>sg'. evaluate_signals sg = Inr sg' \<and>
                 sg' = sg\<lparr>order_queue := order_queue sg @ [(s, 0.1)]\<rparr> \<and>
                 (order_queue sg = [] \<longrightarrow>
                    generate_signal sg' =
                      Some ((s, 0.1),
                            sg\<lparr>order_queue := [], side := Some s, quantity := 0.1\<rparr>))"
    if "signal_vwap (candles sg) = Inr (Some s) \<and> s \<noteq> m" for s
    using a [of s] that gen [of s "0.1"] by blast
  have b': "\<exists>sg'. evaluate_signals sg = Inr sg' \<and>
                 sg' = sg\<lparr>order_queue := order_queue sg @ [(m, 2 * 0.1)]\<rparr> \<and>
                 (order_queue sg = [] \<longrightarrow>
                    generate_signal sg' =
                      Some ((m, 2 * 0.1),
                            sg\<lparr>order_queue := [], side := Some m, quantity := 2 * 0.1\<rparr>))"
    if "signal_vwap (candles sg) = Inr (Some m)"
    using b that gen [of m "2 * 0.1"] by blast
  have c': "\<exists>sg'. evaluate_signals sg = Inr sg' \<and>
                 sg' = sg\<lparr>order_queue := order_queue sg @ [(m, 0.1)]\<rparr> \<and>
                 (order_queue sg = [] \<longrightarrow>
                    generate_signal sg' =
                      Some ((m, 0.1),
                            sg\<lparr>order_queue := [], side := Some m, quantity := 0.1\<rparr>))"
    if "signal_vwap (candles sg) = Inr None"
    using c that gen [of m "0.1"] by blast
  from m a' b' c' show ?thesis by blast
qed

theorem signal_combination_witness:
  "60 \<le> length (candles (init_signal_generator window_disagree)) \<and>
   signal_rsi window_disagree = Inr None \<and> \<not> truthy None \<and>
   signal_simple_ma window_disagree = Inr (Some ''BUY'') \<and>
   signal_vwap window_disagree = Inr (Some ''SELL'') \<and>
   evaluate_signals (init_signal_generator window_disagree) =
     Inr \<lparr>candles = window_disagree, order_queue = [(''SELL'', 0.1)],
          side = None, quantity = 0\<rparr> \<and>
   generate_signal \<lparr>candles = window_disagree, order_queue = [(''SELL'', 0.1)],
                    side = None, quantity = 0\<rparr> =
     Some ((''SELL'', 0.1),
           \<lparr>candles = window_disagree, order_queue = [], side = Some ''SELL'',
            quantity = 0.1\<rparr>) \<and>
   signal_simple_ma window_agree = Inr (Some ''BUY'') \<and>
   signal_vwap window_agree = Inr (Some ''BUY'') \<and>
   evaluate_signals (init_signal_generator window_agree) =
     Inr \<lparr>candles = window_agree, order_queue = [(''BUY'', 0.2)],
          side = None, quantity = 0\<rparr> \<and>
   generate_signal \<lparr>candles = window_agree, order_queue = [(''BUY'', 0.2)],
                    side = None, quantity = 0\<rparr> =
     Some ((''BUY'', 0.2),
           \<lparr>candles = window_agree, order_queue = [], side = Some ''BUY'', quantity = 0.2\<rparr>) \<and>
   signal_simple_ma window_level = Inr (Some ''BUY'') \<and>
   signal_vwap window_level = Inr None \<and>
   evaluate_signals (init_signal_generator window_level) =
     Inr \<lparr>candles = window_level, order_queue = [(''BUY'', 0.1)],
          side = None, quantity = 0\<rparr>"
proof -
  have t: "\<not> truthy None" by simp
  have h1: "60 \<le> length (candles (init_signal_generator window_disagree))"
    and h2: "60 \<le> length (candles (init_signal_generator window_agree))"
    and h3: "60 \<le> length (candles (init_signal_generator window_level))"
    by (simp_all add: window_lengths)
  have r1: "signal_rsi (candles (init_signal_generator window_disagree)) = Inr None"
    and r2: "signal_rsi (candles (init_signal_generator window_agree)) = Inr None"
    and r3: "signal_rsi (candles (init_signal_generator window_level)) = Inr None"
    by (simp_all add: window_disagree_signals window_agree_signals window_level_signals)
  from signal_combination [OF h1 r1 t]
  have p1: "evaluate_signals (init_signal_generator window_disagree) =
       Inr \<lparr>candles = window_disagree, order_queue = [(''SELL'', 0.1)],
            side = None, quantity = 0\<rparr> \<and>
     generate_signal \<lparr>candles = window_disagree, order_queue = [(''SELL'', 0.1)],
                      side = None, quantity = 0\<rparr> =
       Some ((''SELL'', 0.1),
             \<lparr>candles = window_disagree, order_queue = [], side = Some ''SELL'',
              quantity = 0.1\<rparr>)"
    by (auto simp: window_disagree_signals init_signal_generator_def)
  from signal_combination [OF h2 r2 t]
  have p2: "evaluate_signals (init_signal_generator window_agree) =
       Inr \<lparr>candles = window_agree, order_queue = [(''BUY'', 0.2)],
            side = None, quantity = 0\<rparr> \<and>
     generate_signal \<lparr>candles = window_agree, order_queue = [(''BUY'', 0.2)],
                      side = None, quantity = 0\<rparr> =
       Some ((''BUY'', 0.2),
             \<lparr>candles = window_agree, order_queue = [], side = Some ''BUY'',
              quantity = 0.2\<rparr>)"
    by (auto simp: window_agree_signals init_signal_generator_def)
  from signal_combination [OF h3 r3 t]
  have p3: "evaluate_signals (init_signal_generator window_level) =
       Inr \<lparr>candles = window_level, order_queue = [(''BUY'', 0.1)],
            side = None, quantity = 0\<rparr>"
    by (auto simp: window_level_signals init_signal_generator_def)
  from h1 t p1 p2 p3 window_disagree_signals window_agree_signals window_level_signals
  show ?thesis by simp
qed

text \<open>
  Claim C10.  \<open>evaluate_signals\<close> never raises and appends at most one item to
  the queue.  The item is a pair of a side, BUY or SELL, and a quantity, 0.1 or 0.2;
  the quantity is 0.2 only when the RSI signal is silent and the moving-average and
  VWAP signals are equal.  On a queue that was empty before, \<open>generate_signal\<close>
  returns just that item, and blocks when nothing was appended.
\<close>

theorem signal_shape:
  "\<exists>new sg'. evaluate_signals sg = Inr sg' \<and>
      sg' = sg\<lparr>order_queue := order_queue sg @ new\<rparr> \<and>
      length new \<le> 1 \<and>
      (\<forall>(s, q) \<in> set new.
          (s = ''BUY'' \<or> s = ''SELL'') \<and> (q = 0.1 \<or> q = 0.2) \<and>
          (q = 0.2 \<longrightarrow> signal_rsi (candles sg) = Inr None \<and>
                        signal_simple_ma (candles sg) = signal_vwap (candles sg))) \<and>
      (order_queue sg = [] \<longrightarrow>
          map_option fst (generate_signal sg') = (case new of [] \<Rightarrow> None | x # _ \<Rightarrow> Some x))"
proof (cases "length (candles sg) < 60")
  case True
  then have "evaluate_signals sg = Inr sg" by (simp add: evaluate_signals_def)
  then show ?thesis
    by (intro exI [of _ "[]"] exI [of _ sg]) (simp add: generate_signal_def)
next
  case False
  then have ne: "candles sg \<noteq> []" by auto
  have gen: "order_queue sg = [] \<longrightarrow>
      map_option fst (generate_signal (put (s, q) sg)) = Some (s, q)" for s q
    by (simp add: generate_signal_def put_def)
  have put_eq: "put x sg = sg\<lparr>order_queue := order_queue sg @ [x]\<rparr>" for x
    by (simp add: put_def)
  have one: ?thesis
    if "evaluate_signals sg = Inr (put (s, q) sg)"
      and "s = ''BUY'' \<or> s = ''SELL''" and "q = 0.1 \<or> q = 0.2"
      and "q = 0.2 \<Longrightarrow> signal_rsi (candles sg) = Inr None \<and>
             signal_simple_ma (candles sg) = signal_vwap (candles sg)" for s q
    using that gen [of s q]
    by (intro exI [of _ "[(s, q)]"] exI [of _ "put (s, q) sg"]) (simp add: put_eq)
  have side: "x = ''BUY'' \<or> x = ''SELL''"
    if "signal_rsi (candles sg) = Inr (Some x) \<or> signal_simple_ma (candles sg) = Inr (Some x)
        \<or> signal_vwap (candles sg) = Inr (Some x)" for x
    using that signal_rsi_cases [OF ne] signal_simple_ma_cases [OF ne] signal_vwap_cases [OF ne]
    by auto
  from signal_simple_ma_cases [OF ne] obtain m
    where m: "signal_simple_ma (candles sg) = Inr (Some m)" by auto
  from signal_vwap_cases [OF ne] obtain v
    where v: "signal_vwap (candles sg) = Inr v" by auto
  from signal_rsi_cases [OF ne] obtain r
    where r: "signal_rsi (candles sg) = Inr r" by auto
  have tm: "truthy (Some m)" using side [of m] m by auto
  show ?thesis
  proof (cases r)
    case (Some x)
    with r side [of x] have tx: "truthy (Some x)" by auto
    have "evaluate_signals sg = Inr (put (x, 0.1) sg)"
      using False r Some tx by (simp add: evaluate_signals_def)
    then show ?thesis
      using side [of x] r Some by (intro one [of x "0.1"]) auto
  next
    case None
    note rn = None
    show ?thesis
    proof (cases v)
      case None
      have "evaluate_signals sg = Inr (put (m, 0.1) sg)"
        using False r rn m v None tm by (simp add: evaluate_signals_def)
      then show ?thesis
        using side [of m] m by (intro one [of m "0.1"]) auto
    next
      case (Some s)
      with v side [of s] have ts: "truthy (Some s)" by auto
      show ?thesis
      proof (cases "s = m")
        case True
        have "evaluate_signals sg = Inr (put (m, 0.2) sg)"
          using False r rn m v Some tm True by (simp add: evaluate_signals_def)
        then show ?thesis
          using side [of m] m r rn v Some True by (intro one [of m "0.2"]) auto
      next
        case neq: False
        have "evaluate_signals sg = Inr (put (s, 0.1) sg)"
          using False r rn m v Some tm ts neq by (simp add: evaluate_signals_def)
        then show ?thesis
          using side [of s] v Some by (intro one [of s "0.1"]) auto
      qed
    qed
  qed
qed

theorem signal_shape_witness:
  "evaluate_signals (init_signal_generator window_agree) =
     Inr ((init_signal_generator window_agree)\<lparr>order_queue := [(''BUY'', 0.2)]\<rparr>) \<and>
   signal_rsi window_agree = Inr None \<and>
   signal_simple_ma window_agree = signal_vwap window_agree \<and>
   map_option fst
     (generate_signal ((init_signal_generator window_agree)\<lparr>order_queue := [(''BUY'', 0.2)]\<rparr>)) =
     Some (''BUY'', 0.2)"
proof -
  let ?sg = "init_signal_generator window_agree"
  have ev: "evaluate_signals ?sg = Inr (?sg\<lparr>order_queue := [(''BUY'', 0.2)]\<rparr>)"
    by (simp add: evaluate_signals_def window_lengths window_agree_signals put_def
        init_signal_generator_def)
  have q: "order_queue ?sg = []" by (simp add: init_signal_generator_def)
  from signal_shape [of ?sg] obtain new sg' where
    e: "evaluate_signals ?sg = Inr sg'" and
    s: "sg' = ?sg\<lparr>order_queue := order_queue ?sg @ new\<rparr>" and
    b: "\<forall>(s, q) \<in> set new.
          (s = ''BUY'' \<or> s = ''SELL'') \<and> (q = 0.1 \<or> q = 0.2) \<and>
          (q = 0.2 \<longrightarrow> signal_rsi (candles ?sg) = Inr None \<and>
                        signal_simple_ma (candles ?sg) = signal_vwap (candles ?sg))" and
    g: "order_queue ?sg = [] \<longrightarrow>
          map_option fst (generate_signal sg') = (case new of [] \<Rightarrow> None | x # _ \<Rightarrow> Some x)"
    by blast
  from e ev have sg': "sg' = ?sg\<lparr>order_queue := [(''BUY'', 0.2)]\<rparr>" by simp
  with s q have "order_queue (?sg\<lparr>order_queue := new\<rparr>) = order_queue (?sg\<lparr>order_queue := [(''BUY'', 0.2)]\<rparr>)"
    by simp
  then have new: "new = [(''BUY'', 0.2)]" by simp
  from b new have "signal_rsi window_agree = Inr None \<and>
      signal_simple_ma window_agree = signal_vwap window_agree" by simp
  moreover from g q new sg' have "map_option fst
     (generate_signal (?sg\<lparr>order_queue := [(''BUY'', 0.2)]\<rparr>)) = Some (''BUY'', 0.2)" by simp
  ultimately show ?thesis using ev by simp
qed

text \<open>
  Claim C2.  \<open>signal_vwap\<close> compares the last close with the 5-period mean of the
  closes, not with a smoothing of the VWAP series it has just computed: on
  \<open>window_fallen\<close> (55 closes at 200, then 100, 100, 100, 100, 101, all of volume
  1) the last close 101 is above the mean 100.2 of the last five closes, so that the
  code answers SELL, and far below the smoothed VWAP, for which the specification
  asks BUY.
\<close>

theorem vwap_signal_ignores_vwap:
  "signal_vwap window_fallen = Inr (Some ''SELL'') \<and>
   spec_signal_vwap window_fallen = Inr (Some ''BUY'')"
  unfolding signal_vwap_last [OF window_nonempty(2)] spec_signal_vwap_last [OF window_nonempty(2)]
  by code_simp

section \<open>Properties of the risk controller\<close>

text \<open>
  The cycle in closed form, for a cycle that finds the entry price and the book:
  the running peak is the larger of the old peak and the realized PnL, and the
  quotient of the drawdown test is taken with a positive peak.
\<close>

lemma risk_cycle_events:
  assumes "entryPrice inp = Some E" and "order_book_first inp = Some (bid, ask)"
  shows "apply_risk_management_open_position_and_portfolio rm inp =
    (let P = global_position inp;
         U = spec_unrealized_pnl P E bid ask;
         r = realized_pnl inp;
         ev0 = [Write_row P U E r];
         ev1 = (if max_notional_portfolio rm < \<bar>P * E\<bar>
                then [Warn Limit_exceed, Liquidate_position 0.5 False 0.25] else [])
     in if \<not> order_book_second inp then (rm, ev0 @ ev1)
        else
          (let ev2 = (if U < - (max_direct_loss rm * E * \<bar>P\<bar>) \<and> 0.5 < \<bar>P\<bar>
                      then [Warn Open_loss, Liquidate_position 1 False 0.25]
                      else if take_profit_pnl rm < U
                      then [Warn Take_profit, Liquidate_position 0.5 False 0.25] else []);
               peak = max (max_pnl rm) r;
               ev3 = (if 100 < r \<and> r \<le> (1 - max_draw_down rm) * peak
                      then [Warn Max_drawdown, Liquidate_position 0.5 False 0.25] else []);
               ev4 = (if order_book_third inp \<and> U < - (3 * max_direct_loss rm * E * \<bar>P\<bar>)
                      then [Warn Wide_loss, Liquidate_position 1 False 0.5] else [])
           in (rm\<lparr>max_pnl := peak\<rparr>, ev0 @ ev1 @ ev2 @ ev3 @ ev4)))"
proof -
  have dd: "fl_le (fl_div r (max m r)) (Fin (1 - d)) = (r \<le> (1 - d) * max m r)"
    if "100 < r" for r m d :: real
  proof -
    from that have "0 < max m r" by simp
    then show ?thesis by (simp add: fl_div_def pos_divide_le_eq)
  qed
  have upd: "(if max_pnl rm \<le> r then rm\<lparr>max_pnl := r\<rparr> else rm) = rm\<lparr>max_pnl := max (max_pnl rm) r\<rparr>"
    for r by (simp add: max_def)
  show ?thesis
    using assms
    by (simp add: apply_risk_management_open_position_and_portfolio_def Let_def upd dd
        spec_unrealized_pnl_def algebra_simps)
qed



text \<open>
  Claim C9.  In a cycle with position \<open>P\<close>, entry price \<open>E\<close> and the best bid
  and ask of the book, the row the cycle writes carries the unrealized PnL
  \<open>P (bid - E)\<close> when \<open>P > 0\<close> and \<open>P (E - ask)\<close> otherwise, and the direct-loss
  stop, the profit booking and the wide stop are decided on that same value.
\<close>

theorem unrealized_pnl_formula:
  assumes "entryPrice inp = Some E" and "order_book_first inp = Some (bid, ask)"
  shows "(\<exists>rest. snd (apply_risk_management_open_position_and_portfolio rm inp) =
            Write_row (global_position inp)
              (spec_unrealized_pnl (global_position inp) E bid ask) E (realized_pnl inp) # rest) \<and>
         (Warn Open_loss \<in> set (snd (apply_risk_management_open_position_and_portfolio rm inp)) =
            (order_book_second inp \<and>
             spec_unrealized_pnl (global_position inp) E bid ask
               < - (max_direct_loss rm * E * \<bar>global_position inp\<bar>) \<and>
             0.5 < \<bar>global_position inp\<bar>)) \<and>
         (Warn Take_profit \<in> set (snd (apply_risk_management_open_position_and_portfolio rm inp)) =
            (order_book_second inp \<and>
             \<not> (spec_unrealized_pnl (global_position inp) E bid ask
                  < - (max_direct_loss rm * E * \<bar>global_position inp\<bar>) \<and>
                0.5 < \<bar>global_position inp\<bar>) \<and>
             take_profit_pnl rm < spec_unrealized_pnl (global_position inp) E bid ask)) \<and>
         (Warn Wide_loss \<in> set (snd (apply_risk_management_open_position_and_portfolio rm inp)) =
            (order_book_second inp \<and> order_book_third inp \<and>
             spec_unrealized_pnl (global_position inp) E bid ask
               < - (3 * max_direct_loss rm * E * \<bar>global_position inp\<bar>)))"
  unfolding risk_cycle_events [OF assms] Let_def
  by (cases "order_book_second inp") simp_all

theorem unrealized_pnl_formula_witness:
  "entryPrice (risk_inputs_example 2 0) = Some 100 \<and>
   order_book_first (risk_inputs_example 2 0) = Some (110, 111) \<and>
   hd (snd (apply_risk_management_open_position_and_portfolio
              (init_risk_management 0.05 10000 0.4) (risk_inputs_example 2 0))) =
     Write_row 2 20 100 0 \<and>
   hd (snd (apply_risk_management_open_position_and_portfolio
              (init_risk_management 0.05 10000 0.4) (risk_inputs_example (- 2) 0))) =
     Write_row (- 2) 22 100 0 \<and>
   Warn Open_loss \<notin> set (snd (apply_risk_management_open_position_and_portfolio
              (init_risk_management 0.05 10000 0.4) (risk_inputs_example 2 0)))"
proof -
  have e: "entryPrice (risk_inputs_example p r) = Some 100"
    and b: "order_book_first (risk_inputs_example p r) = Some (110, 111)" for p r
    by (simp_all add: risk_inputs_example_def)
  have g: "global_position (risk_inputs_example p r) = p"
    and r: "realized_pnl (risk_inputs_example p r) = r" for p r
    by (simp_all add: risk_inputs_example_def)
  note long = unrealized_pnl_formula [OF e [of 2 0] b [of 2 0],
      where rm = "init_risk_management 0.05 10000 0.4"]
  note short = unrealized_pnl_formula [OF e [of "- 2" 0] b [of "- 2" 0],
      where rm = "init_risk_management 0.05 10000 0.4"]
  from long have 1: "hd (snd (apply_risk_management_open_position_and_portfolio
              (init_risk_management 0.05 10000 0.4) (risk_inputs_example 2 0))) =
     Write_row 2 20 100 0"
    by (auto simp: g r spec_unrealized_pnl_def)
  from short have 2: "hd (snd (apply_risk_management_open_position_and_portfolio
              (init_risk_management 0.05 10000 0.4) (risk_inputs_example (- 2) 0))) =
     Write_row (- 2) 22 100 0"
    by (auto simp: g r spec_unrealized_pnl_def)
  from long have 3: "Warn Open_loss \<notin> set (snd (apply_risk_management_open_position_and_portfolio
              (init_risk_management 0.05 10000 0.4) (risk_inputs_example 2 0)))"
    by (simp add: g r spec_unrealized_pnl_def init_risk_management_def)
  from e b 1 2 3 show ?thesis by simp
qed




section \<open>Properties of the order manager\<close>

subsection \<open>Precision of a limit order\<close>

lemma precision_of_tenth: "precision_of 0.1 = Inr 1"
proof -
  have "log 10 (1 / 10) = - 1"
    by (simp add: log_divide)
  then show ?thesis by (simp add: precision_of_def py_int_def)
qed

lemma precision_of_one: "precision_of 1 = Inr 0"
  by (simp add: precision_of_def py_int_def)

lemma precision_of_hundred: "precision_of 100 = Inr (- 2)"
proof -
  have "log 10 100 = log 10 (10 ^ 2)" by simp
  also have "\<dots> = 2" by (subst log_pow_cancel) simp_all
  finally show ?thesis by (simp add: precision_of_def py_int_def)
qed

lemma init_oms_coarse:
  "init_oms ''ETHUSDT'' coarse_exchange =
     Inr \<lparr>symbol = ''ETHUSDT'', client = coarse_exchange, async_client = None,
          tick_size = 0.1, price_precision = 1, quantity_precision = 0\<rparr>"
  by (simp add: init_oms_def load_exchange_info_def coarse_exchange_def test_exchange_def
      load_filter_def precision_of_tenth precision_of_one)

lemma py_round_examples:
  "py_round 3560.25 2 = 3560.25" "py_round 3560.25 1 = 3560.2"
  "py_round 0.3 1 = 0.3" "py_round 0.3 0 = 0"
  by (simp_all add: py_round_def round_half_even_def Let_def)

lemma upper_examples:
  "upper ''buy'' = ''BUY''" "upper ''BUY'' = ''BUY''" "upper ''SELL'' = ''SELL''"
  by code_simp+


text \<open>
  Claim C3.  \<open>place_limit_order\<close> does not read the precision that
  \<open>load_exchange_info\<close> stored: whatever tick size and precisions the order
  manager holds, the request is the same, with the price rounded to 2 and the
  quantity to 1 decimal.  For an instrument whose filters give a tick size of 0.1
  and a step size of 1, the order manager loads the precisions 1 and 0, and a limit
  order for 0.3 at 3560.25 goes out as a GTC limit order for 0.3 at 3560.25, while
  rounding to the loaded precisions gives 3560.2 and 0.
\<close>

theorem limit_order_ignores_instrument_precision:
  "place_limit_order (om0\<lparr>tick_size := t, price_precision := p, quantity_precision := q\<rparr>)
     smb price qty sd = place_limit_order om0 smb price qty sd \<and>
   (\<exists>om. init_oms ''ETHUSDT'' coarse_exchange = Inr om \<and>
         tick_size om = 0.1 \<and> price_precision om = 1 \<and> quantity_precision om = 0 \<and>
         snd (place_limit_order om ''ETHUSDT'' 3560.25 0.3 ''BUY'') =
           [Request (CreateOrder
              \<lparr>p_symbol = ''ETHUSDT'', p_side = ''BUY'', p_type = ''LIMIT'',
               p_timeInForce = Some ''GTC'', p_price = Some 3560.25, p_quantity = 0.3\<rparr>),
            Log (Placed_limit_order \<lparr>orderId = 8, status = ''NEW''\<rparr>)] \<and>
         py_round 3560.25 (nat (price_precision om)) = 3560.2 \<and>
         py_round 0.3 (nat (quantity_precision om)) = 0)"
proof -
  have same: "place_limit_order
      (om0\<lparr>tick_size := t, price_precision := p, quantity_precision := q\<rparr>)
      smb price qty sd = place_limit_order om0 smb price qty sd"
    by (simp add: place_limit_order_def)
  let ?om = "\<lparr>symbol = ''ETHUSDT'', client = coarse_exchange, async_client = None,
          tick_size = 0.1, price_precision = 1, quantity_precision = 0\<rparr>"
  have created: "futures_create_order coarse_exchange ps = Inr \<lparr>orderId = 8, status = ''NEW''\<rparr>"
    for ps by (simp add: coarse_exchange_def test_exchange_def)
  have "snd (place_limit_order ?om ''ETHUSDT'' 3560.25 0.3 ''BUY'') =
           [Request (CreateOrder
              \<lparr>p_symbol = ''ETHUSDT'', p_side = ''BUY'', p_type = ''LIMIT'',
               p_timeInForce = Some ''GTC'', p_price = Some 3560.25, p_quantity = 0.3\<rparr>),
            Log (Placed_limit_order \<lparr>orderId = 8, status = ''NEW''\<rparr>)]"
    by (simp add: place_limit_order_def limit_order_params_def Let_def created upper_examples
        py_round_def round_half_even_def)
  moreover have "py_round 3560.25 (nat (price_precision ?om)) = 3560.2"
    and "py_round 0.3 (nat (quantity_precision ?om)) = 0"
    by (simp_all add: py_round_def round_half_even_def Let_def)
  ultimately have "\<exists>om. init_oms ''ETHUSDT'' coarse_exchange = Inr om \<and>
         tick_size om = 0.1 \<and> price_precision om = 1 \<and> quantity_precision om = 0 \<and>
         snd (place_limit_order om ''ETHUSDT'' 3560.25 0.3 ''BUY'') =
           [Request (CreateOrder
              \<lparr>p_symbol = ''ETHUSDT'', p_side = ''BUY'', p_type = ''LIMIT'',
               p_timeInForce = Some ''GTC'', p_price = Some 3560.25, p_quantity = 0.3\<rparr>),
            Log (Placed_limit_order \<lparr>orderId = 8, status = ''NEW''\<rparr>)] \<and>
         py_round 3560.25 (nat (price_precision om)) = 3560.2 \<and>
         py_round 0.3 (nat (quantity_precision om)) = 0"
    using init_oms_coarse by (intro exI [of _ ?om]) simp
  with same show ?thesis by blast
qed

subsection \<open>Cancel before place\<close>

lemma no_create_while_pending_Nil [simp]: "no_create_while_pending [] smb tr"
  by (induction "[] :: int list" smb tr rule: no_create_while_pending.induct) simp_all

lemma snd_cancel_order:
  "\<exists>l. snd (cancel_order om smb oid) = [Request (CancelOrder smb oid), Log l]"
  by (simp add: cancel_order_def split: sum.split)



lemma cancel_each_requests:
  "Request r \<in> set (cancel_each om smb ords) \<Longrightarrow> \<exists>oid. r = CancelOrder smb oid"
proof (induction ords)
  case Nil
  then show ?case by simp
next
  case (Cons ord ords)
  from snd_cancel_order obtain l where
    "snd (cancel_order om smb (orderId ord)) = [Request (CancelOrder smb (orderId ord)), Log l]"
    by blast
  with Cons show ?case by auto
qed



lemma test_oms_client [simp]: "client (test_oms ex) = ex"
  by (simp add: test_oms_def)






subsection \<open>Failures of cancel and place\<close>









section \<open>Properties of the account gateway\<close>

text \<open>
  Claim C4.  \<open>connect\<close> registers \<open>_extend_listen_key\<close> with a period of 15
  minutes; running that job on the connected account sends no request and leaves
  the account as it was.
\<close>

theorem listen_key_job_is_a_stub:
  "scheduled_jobs (connect acct) =
     scheduled_jobs acct @ [\<lparr>every_minutes = 15, job_func = Extend_listen_key\<rparr>] \<and>
   run_job Extend_listen_key (connect acct) = (connect acct, [])"
  by (simp add: connect_def run_job_def extend_listen_key_def)

end
